theory Spec2Isabelle
  imports Main "HOL-Library.Word"
begin

unbundle bit_operations_syntax

section \<open>The device behind the bus\<close>

text \<open>
  The driver talks to one magnetometer through a two-wire bus. The peripheral is modelled
  as a register file of bytes indexed by register address, together with the list of bus
  transactions issued so far. A write stores the bytes, a read returns what is stored; the
  transport itself never fails in this model (a transport error of the external bus
  driver would propagate unchanged and is outside the driver's own code).
\<close>

type_synonym byte = "8 word"

datatype bus_op = BusRead nat nat | BusWrite nat "byte list"

record device =
  regs :: "nat \<Rightarrow> byte"
  log :: "bus_op list"

datatype error = ValueError | RuntimeError | IndexError | KeyError | EncodeError

text \<open>
  Modelled from the spec: the bus transport's
  \<^verbatim>\<open>read(device_address, register_address, byte_count) -> bytes\<close> (section 6), an
  external collaborator. It returns the bytes stored from the register address on and
  is recorded in the log. The handle owns one device address for its whole life, so the
  address is left implicit.
\<close>

definition bus_read :: "nat \<Rightarrow> nat \<Rightarrow> device \<Rightarrow> byte list \<times> device" where
  "bus_read reg n dev =
     (map (\<lambda>i. regs dev (reg + i)) [0..<n], dev\<lparr>log := log dev @ [BusRead reg n]\<rparr>)"

text \<open>
  Modelled from the spec: the bus transport's
  \<^verbatim>\<open>write(device_address, register_address, bytes)\<close> (section 6). It stores the bytes
  from the register address on and is recorded in the log.
\<close>

definition bus_write :: "nat \<Rightarrow> byte list \<Rightarrow> device \<Rightarrow> device" where
  "bus_write reg bs dev =
     dev\<lparr>regs := (\<lambda>a. if reg \<le> a \<and> a < reg + length bs then bs ! (a - reg) else regs dev a),
         log := log dev @ [BusWrite reg bs]\<rparr>"

section \<open>Register accessors\<close>

text \<open>
  The driver imports \<^verbatim>\<open>CBits\<close> and \<^verbatim>\<open>RegisterStruct\<close> from
  \<^verbatim>\<open>micropython_bmm150/i2c_helpers.py\<close>, which is not among the sources. Both accessors
  are modelled from sections 4.1 and 4.2 of the specification.
\<close>

subsection \<open>Structured register accessor\<close>

text \<open>
  Modelled from the spec: the decoding of one field of the layout \<^verbatim>\<open>"<hhhh"\<close>, a signed
  16-bit value in little-endian byte order ("each either signed or unsigned, fixed byte
  width, using the declared byte order", section 4.2).
\<close>

definition le_s16 :: "byte \<Rightarrow> byte \<Rightarrow> int" where
  "le_s16 lo hi =
     (let u = uint lo + 256 * uint hi in if u \<ge> 32768 then u - 65536 else u)"

text \<open>
  Modelled from the spec: \<^verbatim>\<open>RegisterStruct\<close> read with the layout \<^verbatim>\<open>"B"\<close>, absent from the
  sources (section 4.2): a single bus read of the layout's byte width, here one
  unsigned byte; a one-field layout yields a scalar.
\<close>

definition struct_get_B :: "nat \<Rightarrow> device \<Rightarrow> int \<times> device" where
  "struct_get_B reg dev =
     (case bus_read reg 1 dev of (bs, dev') \<Rightarrow> (uint (bs ! 0), dev'))"

text \<open>
  Modelled from the spec: \<^verbatim>\<open>RegisterStruct\<close> write with the layout \<^verbatim>\<open>"B"\<close>, absent from
  the sources (section 4.2): the value is encoded with the layout, the inverse of the
  decoding, and sent in a single bus write. The spec does not say what encoding does
  with an integer that has no one-byte representation; the model reports
  \<open>EncodeError\<close> there and issues no write.
\<close>

definition struct_set_B :: "nat \<Rightarrow> int \<Rightarrow> device \<Rightarrow> (error + unit) \<times> device" where
  "struct_set_B reg v dev =
     (if 0 \<le> v \<and> v \<le> 255 then (Inr (), bus_write reg [word_of_int v] dev)
      else (Inl EncodeError, dev))"

text \<open>
  Modelled from the spec: \<^verbatim>\<open>RegisterStruct\<close> read with the layout \<^verbatim>\<open>"<hhhh"\<close>, absent from
  the sources (section 4.2): a single bus read of eight bytes, decoded into the four
  declared fields in declared order.
\<close>

definition struct_get_hhhh :: "nat \<Rightarrow> device \<Rightarrow> (int \<times> int \<times> int \<times> int) \<times> device" where
  "struct_get_hhhh reg dev =
     (case bus_read reg 8 dev of (bs, dev') \<Rightarrow>
        ((le_s16 (bs ! 0) (bs ! 1), le_s16 (bs ! 2) (bs ! 3),
          le_s16 (bs ! 4) (bs ! 5), le_s16 (bs ! 6) (bs ! 7)), dev'))"

subsection \<open>Register field accessor\<close>

text \<open>
  Modelled from the spec: the bit-field descriptor of \<^verbatim>\<open>CBits\<close>, absent from the sources
  (sections 3 and 4.1). The driver declares a field as
  \<^verbatim>\<open>CBits(num_bits, register_address, start_bit)\<close>. Every field of this driver lies
  inside one register byte, so the accessor transfers one byte and the byte order of
  multi-byte spans plays no role; descriptors reaching beyond one byte are not
  modelled.
\<close>

record cbits =
  num_bits :: nat
  register_address :: nat
  start_bit :: nat

text \<open>Modelled from the spec: the constructor call as the driver writes it.\<close>

definition CBits :: "nat \<Rightarrow> nat \<Rightarrow> nat \<Rightarrow> cbits" where
  "CBits n reg s = \<lparr>num_bits = n, register_address = reg, start_bit = s\<rparr>"

text \<open>
  Modelled from the spec: the "precomputed mask" of section 4.1, the field's width in
  ones shifted to the field's offset.
\<close>

definition bit_mask :: "cbits \<Rightarrow> int" where
  "bit_mask d = push_bit (start_bit d) (mask (num_bits d))"

text \<open>
  Modelled from the spec: the new register image of a write (section 4.1): "clears
  exactly the target bits via a precomputed mask, ORs in the new value shifted into
  position". The value is not masked to the width: "the accessor does not itself
  validate range".
\<close>

definition rmw :: "cbits \<Rightarrow> int \<Rightarrow> int \<Rightarrow> int" where
  "rmw d reg v = (reg AND NOT (bit_mask d)) OR push_bit (start_bit d) v"

text \<open>
  Modelled from the spec: \<^verbatim>\<open>CBits\<close> read, absent from the sources (section 4.1): one bus
  read, the register image shifted right by the bit offset and masked to the width.
\<close>

definition cbits_get :: "cbits \<Rightarrow> device \<Rightarrow> int \<times> device" where
  "cbits_get d dev =
     (case bus_read (register_address d) 1 dev of (bs, dev') \<Rightarrow>
        (take_bit (num_bits d) (drop_bit (start_bit d) (uint (bs ! 0))), dev'))"

text \<open>
  Modelled from the spec: \<^verbatim>\<open>CBits\<close> write, absent from the sources (section 4.1). A
  field narrower than the register byte is written by reading the current image,
  computing the new image and writing the byte back; a field that fills the byte is
  written without the preceding read. The spec does not say what happens when the
  image to be written does not fit the byte; the model reports \<open>EncodeError\<close> there
  and issues no write.
\<close>

definition cbits_set :: "cbits \<Rightarrow> int \<Rightarrow> device \<Rightarrow> (error + unit) \<times> device" where
  "cbits_set d v dev =
     (if num_bits d = 8 \<and> start_bit d = 0 then
        (if 0 \<le> v \<and> v \<le> 255
         then (Inr (), bus_write (register_address d) [word_of_int v] dev)
         else (Inl EncodeError, dev))
      else
        (case bus_read (register_address d) 1 dev of (bs, dev') \<Rightarrow>
           (let reg = rmw d (uint (bs ! 0)) v
            in if 0 \<le> reg \<and> reg \<le> 255
               then (Inr (), bus_write (register_address d) [word_of_int reg] dev')
               else (Inl EncodeError, dev'))))"

text \<open>The bit positions a field descriptor declares as its own.\<close>

definition span :: "cbits \<Rightarrow> nat set" where
  "span d = {start_bit d ..< start_bit d + num_bits d}"

section \<open>The driver\<close>

subsection \<open>Constants and descriptors\<close>

definition REG_WHOAMI :: nat where [simp]: "REG_WHOAMI = 0x40"
definition POWER_CONTROL :: nat where [simp]: "POWER_CONTROL = 0x4B"
definition OPERATION_MODE :: nat where [simp]: "OPERATION_MODE = 0x4C"
definition DATA :: nat where [simp]: "DATA = 0x42"
definition LOW_THRESHOLD :: nat where [simp]: "LOW_THRESHOLD = 0x4F"
definition HIGH_THRESHOLD :: nat where [simp]: "HIGH_THRESHOLD = 0x50"
text \<open>
  The registers 0x4D and 0x4A appear as literals in the descriptors \<^verbatim>\<open>_interrupt\<close> and
  \<^verbatim>\<open>_status_interrupt\<close>; they are named here.
\<close>

definition INTERRUPT :: nat where [simp]: "INTERRUPT = 0x4D"
definition STATUS_INTERRUPT :: nat where [simp]: "STATUS_INTERRUPT = 0x4A"

definition NORMAL :: int where [simp]: "NORMAL = 0"
definition FORCED :: int where [simp]: "FORCED = 1"
definition SLEEP :: int where [simp]: "SLEEP = 3"

definition operation_mode_values :: "int list" where
  "operation_mode_values = [NORMAL, FORCED, SLEEP]"

definition INT_DISABLED :: int where [simp]: "INT_DISABLED = 0x1F"
definition INT_ENABLED :: int where [simp]: "INT_ENABLED = 0x00"

definition interrupt_mode_values :: "int list" where
  "interrupt_mode_values = [INT_DISABLED, INT_ENABLED]"

definition RATE_10HZ :: int where [simp]: "RATE_10HZ = 0"
definition RATE_2HZ :: int where [simp]: "RATE_2HZ = 1"
definition RATE_6HZ :: int where [simp]: "RATE_6HZ = 2"
definition RATE_8HZ :: int where [simp]: "RATE_8HZ = 3"
definition RATE_15HZ :: int where [simp]: "RATE_15HZ = 4"
definition RATE_20HZ :: int where [simp]: "RATE_20HZ = 5"
definition RATE_25HZ :: int where [simp]: "RATE_25HZ = 6"
definition RATE_30HZ :: int where [simp]: "RATE_30HZ = 7"

definition data_rate_values :: "int list" where
  "data_rate_values =
     [RATE_10HZ, RATE_2HZ, RATE_6HZ, RATE_8HZ, RATE_15HZ, RATE_20HZ, RATE_25HZ, RATE_30HZ]"

text \<open>The class-level descriptors (lines 102 to 115) that the modelled properties use.\<close>

definition operation_mode_field :: cbits where
  "operation_mode_field = CBits 2 OPERATION_MODE 1"

definition power_mode_field :: cbits where
  "power_mode_field = CBits 1 POWER_CONTROL 0"

definition data_rate_field :: cbits where
  "data_rate_field = CBits 2 OPERATION_MODE 0"

record AlertStatus =
  high_x :: int
  high_y :: int
  high_z :: int
  low_x :: int
  low_y :: int
  low_z :: int

subsection \<open>Python's tuple indexing and dictionary lookup\<close>

text \<open>
  \<^verbatim>\<open>values[i]\<close> on a tuple: positions 0 to len - 1 from the front, -1 down to -len from
  the back, \<^verbatim>\<open>IndexError\<close> for every other integer.
\<close>

definition tuple_index :: "'a list \<Rightarrow> int \<Rightarrow> error + 'a" where
  "tuple_index xs i =
     (if 0 \<le> i \<and> i < int (length xs) then Inr (xs ! nat i)
      else if i < 0 \<and> - int (length xs) \<le> i then Inr (xs ! nat (int (length xs) + i))
      else Inl IndexError)"

definition dict_index :: "('k \<times> 'v) list \<Rightarrow> 'k \<Rightarrow> error + 'v" where
  "dict_index kvs k = (case map_of kvs k of None \<Rightarrow> Inl KeyError | Some v \<Rightarrow> Inr v)"

subsection \<open>Properties\<close>

text \<open>The \<^verbatim>\<open>status_interrupt\<close> property (lines 213 to 228).\<close>

definition status_interrupt :: "device \<Rightarrow> AlertStatus \<times> device" where
  "status_interrupt dev =
     (case struct_get_B STATUS_INTERRUPT dev of (data, dev') \<Rightarrow>
        (let highz = drop_bit 5 (data AND 0x20);
             highy = drop_bit 4 (data AND 0x10);
             highx = drop_bit 3 (data AND 0x08);
             lowz = drop_bit 2 (data AND 0x04);
             lowy = drop_bit 1 (data AND 0x02);
             lowx = data AND 0x01
         in (\<lparr>high_x = highx, high_y = highy, high_z = highz,
              low_x = lowx, low_y = lowy, low_z = lowz\<rparr>, dev')))"

text \<open>The \<^verbatim>\<open>operation_mode\<close> property and its setter (lines 128 to 150).\<close>

definition operation_mode_names :: "string list" where
  "operation_mode_names = [''NORMAL'', ''FORCED'', ''SLEEP'']"

definition operation_mode :: "device \<Rightarrow> (error + string) \<times> device" where
  "operation_mode dev =
     (case cbits_get operation_mode_field dev of (i, dev') \<Rightarrow>
        (tuple_index operation_mode_names i, dev'))"

definition set_operation_mode :: "int \<Rightarrow> device \<Rightarrow> (error + unit) \<times> device" where
  "set_operation_mode v dev =
     (if v \<notin> set operation_mode_values then (Inl ValueError, dev)
      else cbits_set operation_mode_field v dev)"

text \<open>
  The \<^verbatim>\<open>measurements\<close> property (lines 152 to 167). Python's \<^verbatim>\<open>>>\<close> on an unbounded
  integer is \<open>drop_bit\<close> on \<open>int\<close>.
\<close>

definition measurements :: "device \<Rightarrow> (int \<times> int \<times> int \<times> int) \<times> device" where
  "measurements dev =
     (case struct_get_hhhh DATA dev of ((raw_magx, raw_magy, raw_magz, raw_rhall), dev') \<Rightarrow>
        (let magx = drop_bit 3 raw_magx;
             magy = drop_bit 3 raw_magy;
             magz = drop_bit 1 raw_magz;
             hall = drop_bit 2 raw_rhall
         in ((magx, magy, magz, hall), dev')))"

text \<open>
  The setters compute \<^verbatim>\<open>int(value / 16)\<close>: true division followed by truncation
  towards zero. Division by 16 is exact in binary floating point, so for every integer
  that converts to a float without rounding the result is the integer quotient
  truncated towards zero, which is what the model computes.
\<close>

definition int_div16 :: "int \<Rightarrow> int" where
  "int_div16 v = (if 0 \<le> v then v div 16 else - ((- v) div 16))"

text \<open>The threshold properties and their setters (lines 169 to 189).\<close>

definition high_threshold :: "device \<Rightarrow> int \<times> device" where
  "high_threshold dev =
     (case struct_get_B HIGH_THRESHOLD dev of (b, dev') \<Rightarrow> (b * 16, dev'))"

definition set_high_threshold :: "int \<Rightarrow> device \<Rightarrow> (error + unit) \<times> device" where
  "set_high_threshold v dev = struct_set_B HIGH_THRESHOLD (int_div16 v) dev"

definition low_threshold :: "device \<Rightarrow> int \<times> device" where
  "low_threshold dev =
     (case struct_get_B LOW_THRESHOLD dev of (b, dev') \<Rightarrow> (b * 16, dev'))"

definition set_low_threshold :: "int \<Rightarrow> device \<Rightarrow> (error + unit) \<times> device" where
  "set_low_threshold v dev = struct_set_B LOW_THRESHOLD (int_div16 v) dev"

text \<open>
  The \<^verbatim>\<open>interrupt_mode\<close> property and its setter (lines 191 to 211); the table is the
  dictionary literal of the getter.
\<close>

definition interrupt_mode_names :: "(int \<times> string) list" where
  "interrupt_mode_names = [(INT_DISABLED, ''INT_DISABLED''), (INT_ENABLED, ''INT_ENABLED'')]"

definition interrupt_mode :: "device \<Rightarrow> (error + string) \<times> device" where
  "interrupt_mode dev =
     (case struct_get_B INTERRUPT dev of (b, dev') \<Rightarrow>
        (dict_index interrupt_mode_names b, dev'))"

definition set_interrupt_mode :: "int \<Rightarrow> device \<Rightarrow> (error + unit) \<times> device" where
  "set_interrupt_mode v dev =
     (if v \<notin> set interrupt_mode_values then (Inl ValueError, dev)
      else struct_set_B INTERRUPT v dev)"

text \<open>The \<^verbatim>\<open>data_rate\<close> property and its setter (lines 230 to 271).\<close>

definition data_rate_names :: "string list" where
  "data_rate_names =
     [''RATE_10HZ'', ''RATE_2HZ'', ''RATE_6HZ'', ''RATE_8HZ'',
      ''RATE_15HZ'', ''RATE_20HZ'', ''RATE_25HZ'', ''RATE_30HZ'']"

definition data_rate :: "device \<Rightarrow> (error + string) \<times> device" where
  "data_rate dev =
     (case cbits_get data_rate_field dev of (i, dev') \<Rightarrow>
        (tuple_index data_rate_names i, dev'))"

definition set_data_rate :: "int \<Rightarrow> device \<Rightarrow> (error + unit) \<times> device" where
  "set_data_rate v dev =
     (if v \<notin> set data_rate_values then (Inl ValueError, dev)
      else cbits_set data_rate_field v dev)"

subsection \<open>Construction\<close>

text \<open>
  \<^verbatim>\<open>__init__\<close> writes the power bit through its field descriptor (Python's \<^verbatim>\<open>True\<close>
  is the integer 1), reads the identity register, raises \<^verbatim>\<open>RuntimeError\<close> unless it
  holds 0x32, and then writes the operation-mode field directly, without the setter's
  validation.
\<close>

definition init :: "device \<Rightarrow> (error + unit) \<times> device" where
  "init dev =
     (case cbits_set power_mode_field 1 dev of
        (Inl e, dev1) \<Rightarrow> (Inl e, dev1)
      | (Inr u, dev1) \<Rightarrow>
          (case struct_get_B REG_WHOAMI dev1 of (device_id, dev2) \<Rightarrow>
             if device_id \<noteq> 0x32 then (Inl RuntimeError, dev2)
             else cbits_set operation_mode_field NORMAL dev2))"

subsection \<open>Reference notions for the statements\<close>

text \<open>
  The 16-bit two's-complement word that the device holds little-endian in the registers
  \<open>a\<close> (low byte) and \<open>a + 1\<close> (high byte).
\<close>

definition raw16 :: "device \<Rightarrow> nat \<Rightarrow> 16 word" where
  "raw16 dev a = word_cat (regs dev (a + 1)) (regs dev a)"

subsection \<open>Sequencing a write and a read\<close>

text \<open>
  \<open>then_read w r dev\<close> performs the setter \<open>w\<close> and, when it did not raise, the
  getter \<open>r\<close> on the resulting device; it returns what the getter returned.
\<close>

definition then_read ::
  "(device \<Rightarrow> (error + unit) \<times> device) \<Rightarrow> (device \<Rightarrow> 'a \<times> device) \<Rightarrow> device \<Rightarrow> error + 'a" where
  "then_read w r dev =
     (case w dev of (Inl e, dev') \<Rightarrow> Inl e | (Inr u, dev') \<Rightarrow> Inr (fst (r dev')))"

text \<open>A powered-down part with every register zero, and nothing sent on the bus yet.\<close>

definition blank :: device where
  "blank = \<lparr>regs = (\<lambda>a. 0), log = []\<rparr>"

section \<open>Facts about the accessors\<close>

lemma struct_get_B_eq:
  "struct_get_B reg dev = (uint (regs dev reg), dev\<lparr>log := log dev @ [BusRead reg 1]\<rparr>)"
  by (simp add: struct_get_B_def bus_read_def)

lemma cbits_get_eq:
  "cbits_get d dev =
     (take_bit (num_bits d) (drop_bit (start_bit d) (uint (regs dev (register_address d)))),
      dev\<lparr>log := log dev @ [BusRead (register_address d) 1]\<rparr>)"
  by (simp add: cbits_get_def bus_read_def)

lemma regs_bus_write_one: "regs (bus_write reg [b] dev) = (regs dev)(reg := b)"
  by (auto simp add: bus_write_def fun_eq_iff)

lemma log_bus_write: "log (bus_write reg bs dev) = log dev @ [BusWrite reg bs]"
  by (simp add: bus_write_def)

lemma uint_stored:
  assumes "0 \<le> r" "r \<le> 255"
  shows "uint (word_of_int r :: byte) = r"
  using assms by (simp add: uint_word_of_int take_bit_int_eq_self)

text \<open>The image computed by a read-modify-write stays a byte when the shifted value is one.\<close>

lemma rmw_range:
  assumes "0 \<le> x" "x < 256" "0 \<le> v" "push_bit (start_bit d) v < 256"
  shows "0 \<le> rmw d x v \<and> rmw d x v \<le> 255"
proof -
  have a: "0 \<le> x AND NOT (bit_mask d)" using assms(1) by simp
  have "x AND NOT (bit_mask d) \<le> x" using assms(1) by (rule AND_upper1)
  then have b: "x AND NOT (bit_mask d) < 2 ^ 8" using assms(2) by simp
  have c: "push_bit (start_bit d) v < 2 ^ 8" using assms(4) by simp
  have "rmw d x v < 2 ^ 8" unfolding rmw_def using a b c by (rule OR_upper)
  moreover have "0 \<le> rmw d x v" unfolding rmw_def using a assms(3) by simp
  ultimately show ?thesis by simp
qed

text \<open>Reading the field out of the new image gives the low bits of the written value.\<close>

lemma rmw_field:
  "take_bit (num_bits d) (drop_bit (start_bit d) (rmw d x v)) = take_bit (num_bits d) v"
  by (rule bit_eqI) (auto simp add: rmw_def bit_mask_def bit_simps)

lemma small_no_high_bit:
  assumes "0 \<le> (v::int)" "v < 2 ^ w" "w \<le> n"
  shows "\<not> bit v n"
proof -
  have "take_bit w v = v" using assms(1,2) by (simp add: take_bit_int_eq_self)
  then have "bit v n = bit (take_bit w v) n" by simp
  then show ?thesis using assms(3) by (simp add: bit_take_bit_iff)
qed

lemma rmw_frame:
  assumes "0 \<le> v" "v < 2 ^ num_bits d" "k \<notin> span d"
  shows "bit (rmw d x v) k = bit x k"
proof (cases "k < start_bit d")
  case True
  then show ?thesis
    by (simp add: rmw_def bit_mask_def bit_simps)
next
  case False
  with assms(3) have "num_bits d \<le> k - start_bit d"
    by (simp add: span_def)
  with assms(1,2) have "\<not> bit v (k - start_bit d)"
    by (rule small_no_high_bit)
  moreover have "\<not> bit (mask (num_bits d) :: int) (k - start_bit d)"
    using \<open>num_bits d \<le> k - start_bit d\<close> by (simp add: bit_simps)
  ultimately show ?thesis
    by (simp add: rmw_def bit_mask_def bit_simps)
qed

lemma cbits_set_narrow:
  assumes "\<not> (num_bits d = 8 \<and> start_bit d = 0)" "0 \<le> v" "push_bit (start_bit d) v < 256"
  shows "cbits_set d v dev =
     (Inr (), bus_write (register_address d)
        [word_of_int (rmw d (uint (regs dev (register_address d))) v)]
        (dev\<lparr>log := log dev @ [BusRead (register_address d) 1]\<rparr>))"
proof -
  have "uint (regs dev (register_address d)) < 256"
    using uint_lt2p [of "regs dev (register_address d)"] by simp
  then have "0 \<le> rmw d (uint (regs dev (register_address d))) v
      \<and> rmw d (uint (regs dev (register_address d))) v \<le> 255"
    using assms(2,3) by (intro rmw_range) simp_all
  moreover have "(num_bits d = 8 \<and> start_bit d = 0) = False"
    using assms(1) by simp
  ultimately show ?thesis
    unfolding cbits_set_def by (auto simp add: bus_read_def Let_def)
qed

lemma field_after_set:
  assumes "\<not> (num_bits d = 8 \<and> start_bit d = 0)" "0 \<le> v" "push_bit (start_bit d) v < 256"
  shows "fst (cbits_get d (snd (cbits_set d v dev))) = take_bit (num_bits d) v"
proof -
  let ?x = "uint (regs dev (register_address d))"
  have "?x < 256"
    using uint_lt2p [of "regs dev (register_address d)"] by simp
  then have r: "0 \<le> rmw d ?x v \<and> rmw d ?x v \<le> 255"
    using assms(2,3) by (intro rmw_range) simp_all
  show ?thesis
    using r by (simp add: cbits_set_narrow [OF assms] cbits_get_eq regs_bus_write_one
        uint_stored rmw_field)
qed

lemma flag_int: "drop_bit n ((x::int) AND 2 ^ n) = of_bool (bit x n)"
  by (rule bit_eqI) (auto simp add: bit_simps bit_0)

lemma bit_uint_byte: "bit (uint (b::byte)) n = bit b n"
  by (auto simp add: bit_uint_iff dest: bit_imp_le_length)

lemma flag_byte: "drop_bit n (uint (b::byte) AND 2 ^ n) = of_bool (bit b n)"
  using flag_int [of n "uint b"] by (simp only: bit_uint_byte)

lemma then_read_ok:
  assumes "fst (w dev) = Inr ()"
  shows "then_read w r dev = Inr (fst (r (snd (w dev))))"
  using assms by (cases "w dev") (auto simp add: then_read_def split: sum.splits)

section \<open>Interrupt status\<close>

text \<open>
  C6. For every status byte held in register 0x4A, \<open>status_interrupt\<close> returns the six
  flags high_z = bit 5, high_y = bit 4, high_x = bit 3, low_z = bit 2, low_y = bit 1 and
  low_x = bit 0 of that byte, each of them 0 or 1; the byte 0b00101001 decodes to
  high_z = 1, high_y = 0, high_x = 1, low_z = 0, low_y = 0, low_x = 1.
\<close>

theorem status_interrupt_decode:
  "fst (status_interrupt dev) =
     \<lparr>high_x = of_bool (bit (regs dev STATUS_INTERRUPT) 3),
      high_y = of_bool (bit (regs dev STATUS_INTERRUPT) 4),
      high_z = of_bool (bit (regs dev STATUS_INTERRUPT) 5),
      low_x = of_bool (bit (regs dev STATUS_INTERRUPT) 0),
      low_y = of_bool (bit (regs dev STATUS_INTERRUPT) 1),
      low_z = of_bool (bit (regs dev STATUS_INTERRUPT) 2)\<rparr>
   \<and> fst (status_interrupt (blank\<lparr>regs := (regs blank)(STATUS_INTERRUPT := 0x29)\<rparr>)) =
     \<lparr>high_x = 1, high_y = 0, high_z = 1, low_x = 1, low_y = 0, low_z = 0\<rparr>"
proof
  let ?b = "regs dev STATUS_INTERRUPT"
  have "drop_bit 5 (uint ?b AND 2 ^ 5) = of_bool (bit ?b 5)"
    "drop_bit 4 (uint ?b AND 2 ^ 4) = of_bool (bit ?b 4)"
    "drop_bit 3 (uint ?b AND 2 ^ 3) = of_bool (bit ?b 3)"
    "drop_bit 2 (uint ?b AND 2 ^ 2) = of_bool (bit ?b 2)"
    "drop_bit 1 (uint ?b AND 2 ^ 1) = of_bool (bit ?b 1)"
    "drop_bit 0 (uint ?b AND 2 ^ 0) = of_bool (bit ?b 0)"
    by (rule flag_byte)+
  then show "fst (status_interrupt dev) =
     \<lparr>high_x = of_bool (bit ?b 3), high_y = of_bool (bit ?b 4), high_z = of_bool (bit ?b 5),
      low_x = of_bool (bit ?b 0), low_y = of_bool (bit ?b 1), low_z = of_bool (bit ?b 2)\<rparr>"
    by (simp add: status_interrupt_def struct_get_B_eq Let_def)
next
  show "fst (status_interrupt (blank\<lparr>regs := (regs blank)(STATUS_INTERRUPT := 0x29)\<rparr>)) =
     \<lparr>high_x = 1, high_y = 0, high_z = 1, low_x = 1, low_y = 0, low_z = 0\<rparr>"
    by (simp add: status_interrupt_def struct_get_B_eq Let_def blank_def)
qed

section \<open>Operation mode\<close>

text \<open>
  After a legal value has been written, the getter indexes the three-entry name table
  with the value of the two-bit field, which is the value written.
\<close>

lemma operation_mode_after_set:
  assumes "v \<in> set operation_mode_values"
  shows "then_read (set_operation_mode v) operation_mode dev =
           Inr (tuple_index operation_mode_names v)"
proof -
  have v: "v = 0 \<or> v = 1 \<or> v = 3"
    using assms by (simp add: operation_mode_values_def)
  have n: "\<not> (num_bits operation_mode_field = 8 \<and> start_bit operation_mode_field = 0)"
    by (simp add: operation_mode_field_def CBits_def)
  have p: "0 \<le> v" "push_bit (start_bit operation_mode_field) v < 256"
    using v by (auto simp add: operation_mode_field_def CBits_def)
  have t: "take_bit (num_bits operation_mode_field) v = v"
    using v by (auto simp add: operation_mode_field_def CBits_def)
  have "fst (cbits_get operation_mode_field (snd (cbits_set operation_mode_field v dev))) = v"
    using field_after_set [OF n p] t by simp
  moreover have "fst (cbits_set operation_mode_field v dev) = Inr ()"
    by (simp add: cbits_set_narrow [OF n p])
  ultimately show ?thesis
    using assms
    by (simp add: then_read_ok set_operation_mode_def operation_mode_def split_beta)
qed

text \<open>
  C2. Setting the operation mode to NORMAL or FORCED and reading it back returns the
  name of the mode. Setting it to SLEEP (0b11) stores 3 in the field, and the getter
  then indexes the three-entry name table at position 3: the read raises
  \<open>IndexError\<close> instead of returning \<open>''SLEEP''\<close>, on every device.
\<close>

theorem operation_mode_sleep_raises:
  "then_read (set_operation_mode NORMAL) operation_mode dev = Inr (Inr ''NORMAL'')
   \<and> then_read (set_operation_mode FORCED) operation_mode dev = Inr (Inr ''FORCED'')
   \<and> then_read (set_operation_mode SLEEP) operation_mode dev = Inr (Inl IndexError)"
  by (simp add: operation_mode_after_set operation_mode_values_def
      tuple_index_def operation_mode_names_def)

section \<open>Data rate\<close>

text \<open>
  The data-rate field is two bits wide, so after a legal value \<open>v\<close> has been written
  the getter indexes the eight-entry name table with \<open>v mod 4\<close>.
\<close>

lemma data_rate_after_set:
  assumes "v \<in> set data_rate_values"
  shows "then_read (set_data_rate v) data_rate dev =
           Inr (tuple_index data_rate_names (v mod 4))"
proof -
  have v: "0 \<le> v" "v \<le> 7"
    using assms by (auto simp add: data_rate_values_def)
  have n: "\<not> (num_bits data_rate_field = 8 \<and> start_bit data_rate_field = 0)"
    by (simp add: data_rate_field_def CBits_def)
  have p: "0 \<le> v" "push_bit (start_bit data_rate_field) v < 256"
    using v by (auto simp add: data_rate_field_def CBits_def)
  have t: "take_bit (num_bits data_rate_field) v = v mod 4"
    by (simp add: data_rate_field_def CBits_def take_bit_eq_mod)
  have "fst (cbits_get data_rate_field (snd (cbits_set data_rate_field v dev))) = v mod 4"
    using field_after_set [OF n p] t by simp
  moreover have "fst (cbits_set data_rate_field v dev) = Inr ()"
    by (simp add: cbits_set_narrow [OF n p])
  ultimately show ?thesis
    using assms
    by (simp add: then_read_ok set_data_rate_def data_rate_def split_beta)
qed

text \<open>
  C3. Setting the data rate to one of the four values 0b000 to 0b011 and reading it back
  returns the name of that rate. For the four values 0b100 to 0b111 the read returns the
  name of the rate four places earlier in the table (RATE_15HZ reads back as
  \<open>''RATE_10HZ''\<close>), on every device.
\<close>

theorem data_rate_upper_rates_misread:
  "then_read (set_data_rate RATE_10HZ) data_rate dev = Inr (Inr ''RATE_10HZ'')
   \<and> then_read (set_data_rate RATE_2HZ) data_rate dev = Inr (Inr ''RATE_2HZ'')
   \<and> then_read (set_data_rate RATE_6HZ) data_rate dev = Inr (Inr ''RATE_6HZ'')
   \<and> then_read (set_data_rate RATE_8HZ) data_rate dev = Inr (Inr ''RATE_8HZ'')
   \<and> then_read (set_data_rate RATE_15HZ) data_rate dev = Inr (Inr ''RATE_10HZ'')
   \<and> then_read (set_data_rate RATE_20HZ) data_rate dev = Inr (Inr ''RATE_2HZ'')
   \<and> then_read (set_data_rate RATE_25HZ) data_rate dev = Inr (Inr ''RATE_6HZ'')
   \<and> then_read (set_data_rate RATE_30HZ) data_rate dev = Inr (Inr ''RATE_8HZ'')"
  by (simp add: data_rate_after_set data_rate_values_def
      tuple_index_def data_rate_names_def)

section \<open>Overlap of the data-rate and operation-mode fields\<close>

text \<open>
  On a device whose registers are all zero the operation mode reads NORMAL; writing the
  data rate RATE_6HZ (0b10) sets bit 1 of register 0x4C, and the operation mode then
  reads FORCED.
\<close>

lemma data_rate_write_changes_mode:
  "fst (operation_mode blank) = Inr ''NORMAL''
   \<and> fst (set_data_rate RATE_6HZ blank) = Inr ()
   \<and> fst (operation_mode (snd (set_data_rate RATE_6HZ blank))) = Inr ''FORCED''"
proof -
  have n: "\<not> (num_bits data_rate_field = 8 \<and> start_bit data_rate_field = 0)"
    by (simp add: data_rate_field_def CBits_def)
  have p: "(0::int) \<le> 2" "push_bit (start_bit data_rate_field) (2::int) < 256"
    by (simp_all add: data_rate_field_def CBits_def)
  have s: "set_data_rate RATE_6HZ blank = cbits_set data_rate_field 2 blank"
    by (simp add: set_data_rate_def data_rate_values_def)
  show ?thesis
    unfolding s cbits_set_narrow [OF n p]
    by (simp add: operation_mode_def cbits_get_eq regs_bus_write_one blank_def
        rmw_def bit_mask_def operation_mode_field_def CBits_def data_rate_field_def
        tuple_index_def operation_mode_names_def)
qed

text \<open>
  C4. The data-rate field (2 bits at offset 0) and the operation-mode field (2 bits at
  offset 1) live in the same register 0x4C and share exactly bit 1; hence there is a
  data-rate write after which \<open>operation_mode\<close> reads something else than before it,
  although the operation mode was never set.
\<close>

theorem data_rate_and_operation_mode_overlap:
  "register_address data_rate_field = register_address operation_mode_field
   \<and> span data_rate_field = {0, 1}
   \<and> span operation_mode_field = {1, 2}
   \<and> span data_rate_field \<inter> span operation_mode_field = {1}
   \<and> (\<exists>v dev dev'. set_data_rate v dev = (Inr (), dev')
         \<and> fst (operation_mode dev') \<noteq> fst (operation_mode dev))"
proof -
  have a: "span data_rate_field = {0, 1}"
    by (auto simp add: span_def data_rate_field_def CBits_def)
  have b: "span operation_mode_field = {1, 2}"
    by (auto simp add: span_def operation_mode_field_def CBits_def)
  have c: "register_address data_rate_field = register_address operation_mode_field"
    by (simp add: data_rate_field_def operation_mode_field_def CBits_def)
  have "set_data_rate RATE_6HZ blank = (Inr (), snd (set_data_rate RATE_6HZ blank))"
    using data_rate_write_changes_mode by (simp add: prod_eq_iff)
  moreover have "fst (operation_mode (snd (set_data_rate RATE_6HZ blank)))
      \<noteq> fst (operation_mode blank)"
    using data_rate_write_changes_mode by simp
  ultimately have "\<exists>v dev dev'. set_data_rate v dev = (Inr (), dev')
         \<and> fst (operation_mode dev') \<noteq> fst (operation_mode dev)"
    by blast
  with a b c show ?thesis by simp
qed

section \<open>Isolation of a bit-field write\<close>

text \<open>
  C10, as stated, fails: the accessor ORs the shifted value in without checking it
  against the width. Writing 0b100 to the two-bit data-rate field of a zeroed register,
  which is what the data-rate setter does for RATE_15HZ, succeeds and sets bit 2, which
  lies outside the field's span.
\<close>

theorem unchecked_value_spills_counterexample:
  "set_data_rate RATE_15HZ blank = cbits_set data_rate_field RATE_15HZ blank
   \<and> fst (cbits_set data_rate_field RATE_15HZ blank) = Inr ()
   \<and> 2 \<notin> span data_rate_field
   \<and> \<not> bit (regs blank (register_address data_rate_field)) 2
   \<and> bit (regs (snd (cbits_set data_rate_field RATE_15HZ blank))
        (register_address data_rate_field)) 2"
proof -
  have n: "\<not> (num_bits data_rate_field = 8 \<and> start_bit data_rate_field = 0)"
    by (simp add: data_rate_field_def CBits_def)
  have p: "(0::int) \<le> RATE_15HZ" "push_bit (start_bit data_rate_field) RATE_15HZ < 256"
    by (simp_all add: data_rate_field_def CBits_def)
  have s: "set_data_rate RATE_15HZ blank = cbits_set data_rate_field RATE_15HZ blank"
    by (simp add: set_data_rate_def data_rate_values_def)
  have r: "fst (cbits_set data_rate_field RATE_15HZ blank) = Inr ()
   \<and> 2 \<notin> span data_rate_field
   \<and> \<not> bit (regs blank (register_address data_rate_field)) 2
   \<and> bit (regs (snd (cbits_set data_rate_field RATE_15HZ blank))
        (register_address data_rate_field)) 2"
    unfolding cbits_set_narrow [OF n p]
    by (simp add: regs_bus_write_one blank_def rmw_def bit_mask_def span_def
        data_rate_field_def CBits_def)
  from s r show ?thesis
    by (rule conjI)
qed

text \<open>
  C10, amended. For every initial register content, every field narrower than the
  register byte and lying inside it, and every value in the range 0 to 2^width - 1,
  the read-modify-write succeeds and leaves every bit of the containing register
  outside the field's span as it was.
\<close>

theorem cbits_set_isolation:
  assumes "start_bit d + num_bits d \<le> 8" and "num_bits d < 8"
    and "0 \<le> v" and "v < 2 ^ num_bits d" and "k \<notin> span d"
  shows "fst (cbits_set d v dev) = Inr ()
   \<and> bit (regs (snd (cbits_set d v dev)) (register_address d)) k
       = bit (regs dev (register_address d)) k"
proof -
  let ?x = "uint (regs dev (register_address d))"
  have n: "\<not> (num_bits d = 8 \<and> start_bit d = 0)"
    using assms(2) by simp
  have "push_bit (start_bit d) v < 2 ^ num_bits d * 2 ^ start_bit d"
    using assms(4) by (simp add: push_bit_eq_mult)
  also have "\<dots> = 2 ^ (start_bit d + num_bits d)"
    by (simp add: power_add)
  also have "\<dots> \<le> (2::int) ^ 8"
    using assms(1) by (intro power_increasing) simp_all
  finally have p: "push_bit (start_bit d) v < 256" by simp
  have "?x < 256"
    using uint_lt2p [of "regs dev (register_address d)"] by simp
  then have r: "0 \<le> rmw d ?x v \<and> rmw d ?x v \<le> 255"
    using assms(3) p by (intro rmw_range) simp_all
  have "regs (snd (cbits_set d v dev)) (register_address d) = word_of_int (rmw d ?x v)"
    by (simp add: cbits_set_narrow [OF n assms(3) p] regs_bus_write_one)
  then have "bit (regs (snd (cbits_set d v dev)) (register_address d)) k
      = bit (uint (word_of_int (rmw d ?x v) :: byte)) k"
    by (simp only: bit_uint_byte)
  also have "\<dots> = bit (rmw d ?x v) k"
    using r by (simp add: uint_stored)
  also have "\<dots> = bit ?x k"
    using assms(3,4,5) by (rule rmw_frame)
  also have "\<dots> = bit (regs dev (register_address d)) k"
    by (rule bit_uint_byte)
  finally show ?thesis
    by (simp add: cbits_set_narrow [OF n assms(3) p])
qed

theorem cbits_set_isolation_witness:
  "start_bit data_rate_field + num_bits data_rate_field \<le> 8
   \<and> num_bits data_rate_field < 8
   \<and> (0::int) \<le> 3 \<and> (3::int) < 2 ^ num_bits data_rate_field
   \<and> 2 \<notin> span data_rate_field
   \<and> bit (regs (blank\<lparr>regs := (regs blank)(OPERATION_MODE := 4)\<rparr>)
        (register_address data_rate_field)) 2
   \<and> fst (cbits_set data_rate_field 3 (blank\<lparr>regs := (regs blank)(OPERATION_MODE := 4)\<rparr>)) = Inr ()
   \<and> bit (regs (snd (cbits_set data_rate_field 3
         (blank\<lparr>regs := (regs blank)(OPERATION_MODE := 4)\<rparr>)))
        (register_address data_rate_field)) 2"
proof -
  have h: "start_bit data_rate_field + num_bits data_rate_field \<le> 8"
    "num_bits data_rate_field < 8"
    "(0::int) \<le> 3" "(3::int) < 2 ^ num_bits data_rate_field"
    "2 \<notin> span data_rate_field"
    by (simp_all add: data_rate_field_def CBits_def span_def)
  have b: "bit (regs (blank\<lparr>regs := (regs blank)(OPERATION_MODE := 4)\<rparr>)
        (register_address data_rate_field)) 2"
    by (simp add: data_rate_field_def CBits_def)
  show ?thesis
    using h b cbits_set_isolation [OF h, of "blank\<lparr>regs := (regs blank)(OPERATION_MODE := 4)\<rparr>"]
    by simp
qed

section \<open>Validation in the setters\<close>

text \<open>
  C7. The legal sets are {0b00, 0b01, 0b11} for the operation mode, 0b000 to 0b111 for
  the data rate and {0x00, 0x1F} for the interrupt mode. For every value outside the
  legal set the setter raises \<open>ValueError\<close> and hands back the very device state it
  was given: the registers are unmodified and the transaction log has no new entry, so
  no bus read or write was issued.
\<close>

theorem setters_validate_first:
  "set operation_mode_values = {0, 1, 3}
   \<and> set data_rate_values = {0, 1, 2, 3, 4, 5, 6, 7}
   \<and> set interrupt_mode_values = {0x00, 0x1F}
   \<and> (v \<notin> set operation_mode_values \<longrightarrow> set_operation_mode v dev = (Inl ValueError, dev))
   \<and> (v \<notin> set data_rate_values \<longrightarrow> set_data_rate v dev = (Inl ValueError, dev))
   \<and> (v \<notin> set interrupt_mode_values \<longrightarrow> set_interrupt_mode v dev = (Inl ValueError, dev))"
  by (auto simp add: set_operation_mode_def set_data_rate_def set_interrupt_mode_def
      operation_mode_values_def data_rate_values_def interrupt_mode_values_def)

theorem setters_validate_first_witness:
  "(2::int) \<notin> set operation_mode_values
   \<and> set_operation_mode 2 blank = (Inl ValueError, blank)
   \<and> (8::int) \<notin> set data_rate_values
   \<and> set_data_rate 8 blank = (Inl ValueError, blank)
   \<and> (1::int) \<notin> set interrupt_mode_values
   \<and> set_interrupt_mode 1 blank = (Inl ValueError, blank)"
  using setters_validate_first [of 2 blank] setters_validate_first [of 8 blank]
    setters_validate_first [of 1 blank]
  by simp

section \<open>Interrupt mode\<close>

text \<open>
  C9. The enabled constant is 0x00 and the disabled constant is 0x1F. For each of the
  two, setting \<open>interrupt_mode\<close> to it and reading \<open>interrupt_mode\<close> back returns the
  matching name from the two-entry table, on every device.
\<close>

theorem interrupt_mode_roundtrip:
  "INT_ENABLED = 0x00 \<and> INT_DISABLED = 0x1F
   \<and> then_read (set_interrupt_mode INT_ENABLED) interrupt_mode dev = Inr (Inr ''INT_ENABLED'')
   \<and> then_read (set_interrupt_mode INT_DISABLED) interrupt_mode dev = Inr (Inr ''INT_DISABLED'')"
  by (simp add: then_read_def set_interrupt_mode_def interrupt_mode_values_def
      struct_set_B_def interrupt_mode_def struct_get_B_eq regs_bus_write_one
      dict_index_def interrupt_mode_names_def)

section \<open>Thresholds\<close>

lemma int_div16_nonneg: "0 \<le> n \<Longrightarrow> int_div16 n = n div 16"
  by (simp add: int_div16_def)

lemma threshold_stored:
  assumes "0 \<le> (n::int)" "n \<le> 4095"
  shows "0 \<le> n div 16 \<and> n div 16 \<le> 255"
  using assms by presburger

text \<open>
  C1. The representable range is 0 to 4095: these are the integers whose quotient by 16
  fits the threshold byte. For every \<open>n\<close> in it, writing the high (respectively low)
  threshold stores the byte \<open>n div 16\<close>, and reading the threshold afterwards returns
  \<open>n\<close> rounded down to a multiple of 16, which is \<open>n\<close> itself when 16 divides \<open>n\<close>.
  Every value read is the stored byte times 16. Writing 100 stores 6 and reads back 96.
\<close>

theorem threshold_roundtrip:
  assumes "0 \<le> n" and "n \<le> 4095"
  shows "fst (set_high_threshold n dev) = Inr ()
   \<and> regs (snd (set_high_threshold n dev)) HIGH_THRESHOLD = word_of_int (n div 16)
   \<and> then_read (set_high_threshold n) high_threshold dev = Inr (n - n mod 16)
   \<and> fst (set_low_threshold n dev) = Inr ()
   \<and> regs (snd (set_low_threshold n dev)) LOW_THRESHOLD = word_of_int (n div 16)
   \<and> then_read (set_low_threshold n) low_threshold dev = Inr (n - n mod 16)
   \<and> (16 dvd n \<longrightarrow> then_read (set_high_threshold n) high_threshold dev = Inr n
        \<and> then_read (set_low_threshold n) low_threshold dev = Inr n)
   \<and> fst (high_threshold dev) = uint (regs dev HIGH_THRESHOLD) * 16
   \<and> fst (low_threshold dev) = uint (regs dev LOW_THRESHOLD) * 16"
proof -
  have q: "0 \<le> n div 16 \<and> n div 16 \<le> 255"
    using assms by (rule threshold_stored)
  have u: "uint (word_of_int (n div 16) :: byte) = n div 16"
    using q by (simp add: uint_stored)
  have m: "n div 16 * 16 = n - n mod 16"
    by (simp add: algebra_simps minus_mod_eq_mult_div)
  have d: "16 dvd n \<Longrightarrow> n - n mod 16 = n"
    by (simp add: dvd_eq_mod_eq_0)
  have h: "set_high_threshold n dev = (Inr (), bus_write HIGH_THRESHOLD [word_of_int (n div 16)] dev)"
    using q assms(1) by (simp add: set_high_threshold_def struct_set_B_def int_div16_nonneg)
  have l: "set_low_threshold n dev = (Inr (), bus_write LOW_THRESHOLD [word_of_int (n div 16)] dev)"
    using q assms(1) by (simp add: set_low_threshold_def struct_set_B_def int_div16_nonneg)
  have hr: "then_read (set_high_threshold n) high_threshold dev = Inr (n - n mod 16)"
    using u m by (simp add: then_read_def h high_threshold_def struct_get_B_eq regs_bus_write_one)
  have lr: "then_read (set_low_threshold n) low_threshold dev = Inr (n - n mod 16)"
    using u m by (simp add: then_read_def l low_threshold_def struct_get_B_eq regs_bus_write_one)
  have g: "fst (high_threshold dev) = uint (regs dev HIGH_THRESHOLD) * 16"
    "fst (low_threshold dev) = uint (regs dev LOW_THRESHOLD) * 16"
    by (simp_all add: high_threshold_def low_threshold_def struct_get_B_eq)
  show ?thesis
    using hr lr d g by (simp add: h l regs_bus_write_one)
qed

theorem threshold_roundtrip_witness:
  "(0::int) \<le> 100 \<and> (100::int) \<le> 4095
   \<and> regs (snd (set_high_threshold 100 blank)) HIGH_THRESHOLD = 6
   \<and> then_read (set_high_threshold 100) high_threshold blank = Inr 96
   \<and> then_read (set_low_threshold 100) low_threshold blank = Inr 96
   \<and> (16::int) dvd 4080
   \<and> then_read (set_high_threshold 4080) high_threshold blank = Inr 4080
   \<and> then_read (set_low_threshold 4080) low_threshold blank = Inr 4080"
  using threshold_roundtrip [of 100 blank] threshold_roundtrip [of 4080 blank]
  by simp

text \<open>
  Below zero the setter truncates towards zero instead of rounding down: -5 is stored
  as 0. Such values lie outside the range of the byte register.
\<close>

lemma threshold_negative_truncates:
  "then_read (set_high_threshold (- 5)) high_threshold blank = Inr 0"
  by (simp add: then_read_def set_high_threshold_def struct_set_B_def int_div16_def
      high_threshold_def struct_get_B_eq regs_bus_write_one)

section \<open>Measurements\<close>

text \<open>
  The structured read decodes each pair of bytes as a little-endian two's-complement
  number: it is the signed value of the 16-bit word made of the two bytes.
\<close>

lemma signed_16:
  assumes "0 \<le> (u::int)" "u < 65536"
  shows "signed_take_bit 15 u = (if u \<ge> 32768 then u - 65536 else u)"
proof -
  have s: "signed_take_bit 15 u = (u + 32768) mod 65536 - 32768"
    by (simp add: signed_take_bit_eq_take_bit_shift take_bit_eq_mod)
  show ?thesis
  proof (cases "u \<ge> 32768")
    case True
    have e: "u + 32768 = (u - 32768) + 65536"
      by arith
    have "(u + 32768) mod 65536 = (u - 32768) mod 65536"
      by (subst e) (simp only: mod_add_self2)
    also have "\<dots> = u - 32768"
      using True assms(2) by (intro mod_pos_pos_trivial) simp_all
    finally show ?thesis
      using True s by simp
  next
    case False
    then have "(u + 32768) mod 65536 = u + 32768"
      using assms(1) by (intro mod_pos_pos_trivial) simp_all
    then show ?thesis
      using False s by simp
  qed
qed

lemma uint_word_cat_bytes:
  "uint (word_cat hi lo :: 16 word) = uint (lo::byte) + 256 * uint (hi::byte)"
proof -
  have b: "uint lo < 256" "uint hi < 256" "0 \<le> uint lo" "0 \<le> uint hi"
    using uint_lt2p [of lo] uint_lt2p [of hi] by simp_all
  have c: "concat_bit 8 (uint lo) (uint hi) = uint lo + 256 * uint hi"
    using b by (simp add: concat_bit_eq take_bit_int_eq_self push_bit_eq_mult)
  have r: "0 \<le> uint lo + 256 * uint hi" "uint lo + 256 * uint hi < 65536"
    using b by linarith+
  have "uint (word_cat hi lo :: 16 word) = take_bit 16 (concat_bit 8 (uint lo) (uint hi))"
    unfolding word_cat_eq' by (simp add: uint_word_of_int_eq)
  also have "\<dots> = uint lo + 256 * uint hi"
    unfolding c using r by (simp add: take_bit_int_eq_self)
  finally show ?thesis .
qed

lemma le_s16_sint: "le_s16 lo hi = sint (word_cat hi lo :: 16 word)"
proof -
  have b: "uint lo < 256" "uint hi < 256" "0 \<le> uint lo" "0 \<le> uint hi"
    using uint_lt2p [of lo] uint_lt2p [of hi] by simp_all
  have r: "0 \<le> uint lo + 256 * uint hi" "uint lo + 256 * uint hi < 65536"
    using b by linarith+
  have "sint (word_cat hi lo :: 16 word) = signed_take_bit 15 (uint lo + 256 * uint hi)"
    by (simp add: sint_uint uint_word_cat_bytes)
  also have "\<dots> = le_s16 lo hi"
    unfolding le_s16_def Let_def using r by (rule signed_16)
  finally show ?thesis by simp
qed


lemma struct_get_hhhh_eq:
  "struct_get_hhhh a dev =
     ((le_s16 (regs dev a) (regs dev (a + 1)), le_s16 (regs dev (a + 2)) (regs dev (a + 3)),
       le_s16 (regs dev (a + 4)) (regs dev (a + 5)), le_s16 (regs dev (a + 6)) (regs dev (a + 7))),
      dev\<lparr>log := log dev @ [BusRead a 8]\<rparr>)"
  by (simp add: struct_get_hhhh_def bus_read_def)

lemma shifted_sample:
  "drop_bit n (le_s16 (regs dev a) (regs dev (a + 1))) = sint (signed_drop_bit n (raw16 dev a))"
  by (simp add: le_s16_sint raw16_def sint_signed_drop_bit_eq)

text \<open>
  C5. For every content of the eight data registers, \<open>measurements\<close> returns the four
  signed 16-bit little-endian raw values shifted right arithmetically: x and y by 3
  bits, z by 1 bit and the hall resistance by 2 bits. Python's \<^verbatim>\<open>>>\<close> on the decoded
  integers agrees with the two's-complement arithmetic shift of the 16-bit words, that
  is with division by 8, 2 and 4 rounded towards minus infinity, also for negative raw
  values. The read is one bus transaction of eight bytes and changes no register.
\<close>

theorem measurements_decode:
  "fst (measurements dev) =
     (sint (signed_drop_bit 3 (raw16 dev DATA)),
      sint (signed_drop_bit 3 (raw16 dev (DATA + 2))),
      sint (signed_drop_bit 1 (raw16 dev (DATA + 4))),
      sint (signed_drop_bit 2 (raw16 dev (DATA + 6))))
   \<and> fst (measurements dev) =
     (sint (raw16 dev DATA) div 8,
      sint (raw16 dev (DATA + 2)) div 8,
      sint (raw16 dev (DATA + 4)) div 2,
      sint (raw16 dev (DATA + 6)) div 4)
   \<and> snd (measurements dev) = dev\<lparr>log := log dev @ [BusRead DATA 8]\<rparr>"
proof -
  have m: "measurements dev =
     ((drop_bit 3 (le_s16 (regs dev 66) (regs dev (66 + 1))),
       drop_bit 3 (le_s16 (regs dev 68) (regs dev (68 + 1))),
       drop_bit 1 (le_s16 (regs dev 70) (regs dev (70 + 1))),
       drop_bit 2 (le_s16 (regs dev 72) (regs dev (72 + 1)))),
      dev\<lparr>log := log dev @ [BusRead 66 8]\<rparr>)"
    by (simp add: measurements_def struct_get_hhhh_eq)
  have a: "fst (measurements dev) =
     (sint (signed_drop_bit 3 (raw16 dev 66)), sint (signed_drop_bit 3 (raw16 dev 68)),
      sint (signed_drop_bit 1 (raw16 dev 70)), sint (signed_drop_bit 2 (raw16 dev 72)))"
    unfolding m shifted_sample by (simp only: fst_conv)
  have d: "sint (signed_drop_bit 3 w) = sint w div 8"
    "sint (signed_drop_bit 1 w) = sint w div 2"
    "sint (signed_drop_bit 2 w) = sint w div 4" for w :: "16 word"
    by (simp_all add: sint_signed_drop_bit_eq drop_bit_eq_div)
  have b: "fst (measurements dev) =
     (sint (raw16 dev 66) div 8, sint (raw16 dev 68) div 8,
      sint (raw16 dev 70) div 2, sint (raw16 dev 72) div 4)"
    unfolding a d by (rule refl)
  have c: "snd (measurements dev) = dev\<lparr>log := log dev @ [BusRead 66 8]\<rparr>"
    unfolding m by (simp only: snd_conv)
  have n: "DATA = 66" "(66::nat) + 2 = 68" "(66::nat) + 4 = 70" "(66::nat) + 6 = 72"
    by simp_all
  show ?thesis
    unfolding n using a b c by (intro conjI)
qed

text \<open>
  The raw quadruple (64, 64, 2, 8) decodes to (8, 8, 1, 2); the raw quadruple
  (-8, 0, -1, -32768) decodes to (-1, 0, -1, -8192), where a logical shift would have
  given positive numbers.
\<close>

lemma measurements_examples:
  "fst (measurements (blank\<lparr>regs := (regs blank)(66 := 0x40, 68 := 0x40, 70 := 0x02, 72 := 0x08)\<rparr>))
     = (8, 8, 1, 2)
   \<and> fst (measurements (blank\<lparr>regs := (regs blank)(66 := 0xF8, 67 := 0xFF, 70 := 0xFF, 71 := 0xFF,
          72 := 0x00, 73 := 0x80)\<rparr>))
     = (- 1, 0, - 1, - 8192)"
  by (simp add: measurements_def struct_get_hhhh_eq blank_def le_s16_def)

section \<open>Construction\<close>

text \<open>
  The bytes written by the two field writes of the constructor: the power write sets
  bit 0 of register 0x4B and keeps the rest, the mode write clears bits 1 and 2 of
  register 0x4C and keeps the rest.
\<close>

lemma rmw_as_word:
  "(word_of_int (rmw d (uint b) v) :: byte)
     = (b AND NOT (push_bit (start_bit d) (mask (num_bits d))))
         OR push_bit (start_bit d) (word_of_int v)"
  by (rule bit_eqI)
    (auto simp add: rmw_def bit_mask_def bit_simps bit_uint_byte dest: bit_imp_le_length)

lemma cleared_field:
  "take_bit w (drop_bit s (uint ((b::byte) AND NOT (push_bit s (mask w))))) = 0"
  by (rule bit_eqI) (auto simp add: bit_simps dest: bit_imp_le_length)

lemma power_image: "(word_of_int (rmw power_mode_field (uint b) 1) :: byte) = b OR 1"
  unfolding rmw_as_word
  by (rule bit_eqI) (auto simp add: power_mode_field_def CBits_def bit_simps)

lemma normal_image: "(word_of_int (rmw operation_mode_field (uint b) 0) :: byte) = b AND NOT 6"
proof -
  have "push_bit 1 (mask 2) = (6 :: byte)"
    by (simp add: mask_eq_exp_minus_1)
  then show ?thesis
    unfolding rmw_as_word by (simp add: operation_mode_field_def CBits_def)
qed

lemma power_on:
  "cbits_set power_mode_field 1 dev =
     (Inr (), dev\<lparr>regs := (regs dev)(POWER_CONTROL := regs dev POWER_CONTROL OR 1),
                  log := log dev @ [BusRead POWER_CONTROL 1,
                                    BusWrite POWER_CONTROL [regs dev POWER_CONTROL OR 1]]\<rparr>)"
proof -
  have n: "\<not> (num_bits power_mode_field = 8 \<and> start_bit power_mode_field = 0)"
    by (simp add: power_mode_field_def CBits_def)
  have p: "(0::int) \<le> 1" "push_bit (start_bit power_mode_field) (1::int) < 256"
    by (simp_all add: power_mode_field_def CBits_def)
  have a: "register_address power_mode_field = POWER_CONTROL"
    by (simp add: power_mode_field_def CBits_def)
  show ?thesis
    unfolding cbits_set_narrow [OF n p] a power_image
    by (simp add: bus_write_def fun_eq_iff)
qed

lemma set_normal:
  "cbits_set operation_mode_field 0 dev =
     (Inr (), dev\<lparr>regs := (regs dev)(OPERATION_MODE := regs dev OPERATION_MODE AND NOT 6),
                  log := log dev @ [BusRead OPERATION_MODE 1,
                                    BusWrite OPERATION_MODE [regs dev OPERATION_MODE AND NOT 6]]\<rparr>)"
proof -
  have n: "\<not> (num_bits operation_mode_field = 8 \<and> start_bit operation_mode_field = 0)"
    by (simp add: operation_mode_field_def CBits_def)
  have p: "(0::int) \<le> 0" "push_bit (start_bit operation_mode_field) (0::int) < 256"
    by (simp_all add: operation_mode_field_def CBits_def)
  have a: "register_address operation_mode_field = OPERATION_MODE"
    by (simp add: operation_mode_field_def CBits_def)
  show ?thesis
    unfolding cbits_set_narrow [OF n p] a normal_image
    by (simp add: bus_write_def fun_eq_iff)
qed

text \<open>
  C8. Construction performs, in this order: the read-modify-write that sets the power
  bit of register 0x4B, then the read of the identity register 0x40, then, only when
  that byte is 0x32, the read-modify-write that stores NORMAL in the operation-mode
  field of register 0x4C, after which the operation mode reads NORMAL. For any other
  identity byte construction raises \<open>RuntimeError\<close> right after the identity read:
  the identity is read once, and register 0x4C is neither read nor written. The
  identity byte is the one the device answers with after the power write; in the
  register-file model that write does not touch register 0x40.
\<close>

theorem init_protocol:
  "(regs dev REG_WHOAMI = 0x32 \<longrightarrow>
      fst (init dev) = Inr ()
      \<and> log (snd (init dev)) = log dev @
          [BusRead POWER_CONTROL 1, BusWrite POWER_CONTROL [regs dev POWER_CONTROL OR 1],
           BusRead REG_WHOAMI 1,
           BusRead OPERATION_MODE 1, BusWrite OPERATION_MODE [regs dev OPERATION_MODE AND NOT 6]]
      \<and> fst (operation_mode (snd (init dev))) = Inr ''NORMAL'')
   \<and> (regs dev REG_WHOAMI \<noteq> 0x32 \<longrightarrow>
      fst (init dev) = Inl RuntimeError
      \<and> log (snd (init dev)) = log dev @
          [BusRead POWER_CONTROL 1, BusWrite POWER_CONTROL [regs dev POWER_CONTROL OR 1],
           BusRead REG_WHOAMI 1])"
proof -
  have six: "(6::byte) = push_bit 1 (mask 2)"
    by (simp add: mask_eq_exp_minus_1)
  have t: "take_bit 2 (drop_bit 1 (uint (b AND NOT 6))) = 0" for b :: byte
    unfolding six by (rule cleared_field)
  have t': "take_bit 2 (drop_bit (Suc 0) (uint (b AND - 7))) = 0" for b :: byte
    using t [of b] by simp
  have w: "uint (b::byte) \<noteq> 50 \<longleftrightarrow> b \<noteq> 50" for b
  proof -
    have "uint (50::byte) = 50" by simp
    then show ?thesis by (metis word_uint_eq_iff)
  qed
  have f: "num_bits operation_mode_field = 2" "start_bit operation_mode_field = 1"
    "register_address operation_mode_field = 76"
    by (simp_all add: operation_mode_field_def CBits_def)
  show ?thesis
    by (simp add: init_def power_on struct_get_B_eq set_normal operation_mode_def
        cbits_get_eq f t' w tuple_index_def operation_mode_names_def)
qed


theorem init_protocol_witness:
  "regs (blank\<lparr>regs := (regs blank)(REG_WHOAMI := 0x32)\<rparr>) REG_WHOAMI = 0x32
   \<and> fst (init (blank\<lparr>regs := (regs blank)(REG_WHOAMI := 0x32)\<rparr>)) = Inr ()
   \<and> log (snd (init (blank\<lparr>regs := (regs blank)(REG_WHOAMI := 0x32)\<rparr>))) =
        [BusRead POWER_CONTROL 1, BusWrite POWER_CONTROL [1], BusRead REG_WHOAMI 1,
         BusRead OPERATION_MODE 1, BusWrite OPERATION_MODE [0]]
   \<and> regs blank REG_WHOAMI \<noteq> 0x32
   \<and> fst (init blank) = Inl RuntimeError
   \<and> log (snd (init blank)) =
        [BusRead POWER_CONTROL 1, BusWrite POWER_CONTROL [1], BusRead REG_WHOAMI 1]"
  using init_protocol [of blank]
    init_protocol [of "blank\<lparr>regs := (regs blank)(REG_WHOAMI := 0x32)\<rparr>"]
  by (simp add: blank_def)

end
